theory Spec2Isabelle
  imports Complex_Main "HOL-Library.Sublist"
begin

section \<open>Strings as the program uses them\<close>

text \<open>
  The checker works on Python \<^verbatim>\<open>str\<close> values with three library operations:
  \<^verbatim>\<open>s.lower()\<close>, \<^verbatim>\<open>a in b\<close> (substring test) and \<^verbatim>\<open>t.format(x)\<close>.
  Strings are modelled as \<^typ>\<open>string\<close>; \<open>lower\<close> changes the letters A to Z only
  (the catalogue's markers and URLs are ASCII). The general statements below use
  \<open>lower\<close> as it stands on both sides of a comparison and do not depend on which
  characters it changes.
\<close>

definition lower_char :: "char \<Rightarrow> char" where
  "lower_char c =
     (let n = (of_char c :: nat) in if 65 \<le> n \<and> n \<le> 90 then char_of (n + 32) else c)"

definition lower :: "string \<Rightarrow> string" where
  "lower s = map lower_char s"

text \<open>\<^verbatim>\<open>needle in hay\<close>: the needle occurs as a contiguous run of the haystack.\<close>

definition py_in :: "string \<Rightarrow> string \<Rightarrow> bool" where
  "py_in needle hay = sublist needle hay"

text \<open>Everything the modelled calls can raise is a subclass of \<^verbatim>\<open>Exception\<close>.\<close>

datatype exn =
    IndexError
  | ValueError
  | RequestException
  | PlaywrightError
  | OtherException

text \<open>
  \<^verbatim>\<open>template.format(arg)\<close> with one positional argument. The replacement field
  \<^verbatim>\<open>{}\<close> takes the argument, \<^verbatim>\<open>{{\<close> and \<^verbatim>\<open>}}\<close> are escaped braces, a second
  \<^verbatim>\<open>{}\<close> has no argument left (IndexError) and a lone brace is a ValueError.
  Named, numbered or formatted fields are not used by the catalogue; the model
  reports them as ValueError too, and every statement below that depends on a
  substitution assumes that it returned.
\<close>

fun format_from :: "bool \<Rightarrow> string \<Rightarrow> string \<Rightarrow> exn + string" where
  "format_from used arg [] = Inr []"
| "format_from used arg (c # cs) =
     (if c = CHR ''{'' then
        (case cs of
           [] \<Rightarrow> Inl ValueError
         | d # ds \<Rightarrow>
             if d = CHR ''{'' then map_sum id (\<lambda>r. CHR ''{'' # r) (format_from used arg ds)
             else if d = CHR ''}'' then
               (if used then Inl IndexError
                else map_sum id (\<lambda>r. arg @ r) (format_from True arg ds))
             else Inl ValueError)
      else if c = CHR ''}'' then
        (case cs of
           [] \<Rightarrow> Inl ValueError
         | d # ds \<Rightarrow>
             if d = CHR ''}'' then map_sum id (\<lambda>r. CHR ''}'' # r) (format_from used arg ds)
             else Inl ValueError)
      else map_sum id (\<lambda>r. c # r) (format_from used arg cs))"

definition py_format :: "string \<Rightarrow> string \<Rightarrow> exn + string" where
  "py_format template arg = format_from False arg template"


section \<open>Dictionaries\<close>

text \<open>
  A Python \<^verbatim>\<open>dict\<close> keeps its keys in insertion order, each key once. It is an
  association list; \<open>dict_set\<close> is \<^verbatim>\<open>d[k] = v\<close>: an existing key keeps its place
  and takes the new value, a new key goes to the end.
\<close>

fun dict_set :: "('k \<times> 'v) list \<Rightarrow> 'k \<Rightarrow> 'v \<Rightarrow> ('k \<times> 'v) list" where
  "dict_set [] k v = [(k, v)]"
| "dict_set ((k', v') # d) k v = (if k' = k then (k, v) # d else (k', v') # dict_set d k v)"

text \<open>\<^verbatim>\<open>{**a, **b}\<close>: a fresh dict receives the items of \<open>a\<close>, then those of \<open>b\<close>.\<close>

definition dict_merge :: "('k \<times> 'v) list \<Rightarrow> ('k \<times> 'v) list \<Rightarrow> ('k \<times> 'v) list" where
  "dict_merge a b = fold (\<lambda>(k, v) d. dict_set d k v) (a @ b) []"


section \<open>The site catalogue\<close>

text \<open>
  The keys of a site's entry; \<open>fetch_method\<close> is the key \<^verbatim>\<open>"method"\<close>.
\<close>

record site_config =
  url :: string
  fetch_method :: string
  success_indicators :: "string list"
  failure_indicators :: "string list"

record category =
  name :: string
  sites :: "(string \<times> site_config) list"

definition Instagram :: site_config where
  \<open>Instagram = \<lparr>
     url = ''https://www.instagram.com/{}/'',
     fetch_method = ''playwright'',
     success_indicators = [''profilePage_'', ''"username":"{}"'', ''content="@'' @ ''{}''],
     failure_indicators = [''Sorry, this page isn't available'', ''User not found'']\<rparr>\<close>

definition Facebook :: site_config where
  \<open>Facebook = \<lparr>
     url = ''https://www.facebook.com/{}/'',
     fetch_method = ''requests'',
     success_indicators = [],
     failure_indicators = [''This content isn't available'', ''Page not found'']\<rparr>\<close>

definition Twitter :: site_config where
  \<open>Twitter = \<lparr>
     url = ''https://x.com/{}/'',
     fetch_method = ''playwright'',
     success_indicators = [''data-testid="UserName"'', ''data-testid="UserDescription"''],
     failure_indicators = [''This account doesn't exist'', ''Account suspended'']\<rparr>\<close>

definition Snapchat :: site_config where
  \<open>Snapchat = \<lparr>
     url = ''https://www.snapchat.com/add/{}/'',
     fetch_method = ''playwright'',
     success_indicators = [''data-testid="add-friend-button"'', ''snapcode''],
     failure_indicators = [''Hmm, couldn't find'', ''User not found'']\<rparr>\<close>

definition LinkedIn :: site_config where
  \<open>LinkedIn = \<lparr>
     url = ''https://www.linkedin.com/in/{}/'',
     fetch_method = ''requests'',
     success_indicators = [],
     failure_indicators = [''This LinkedIn profile doesn't exist'']\<rparr>\<close>

definition GitHub :: site_config where
  \<open>GitHub = \<lparr>
     url = ''https://api.github.com/users/{}'',
     fetch_method = ''requests'',
     success_indicators = [],
     failure_indicators = []\<rparr>\<close>

text \<open>The table as the module first builds it: category 3 starts empty.\<close>

definition CATEGORIES_literal :: "(string \<times> category) list" where
  "CATEGORIES_literal =
     [(''1'', \<lparr>name = ''Social Sites'',
              sites = [(''Instagram'', Instagram), (''Facebook'', Facebook),
                       (''Twitter'', Twitter), (''Snapchat'', Snapchat)]\<rparr>),
      (''2'', \<lparr>name = ''Tech Side'',
              sites = [(''LinkedIn'', LinkedIn), (''GitHub'', GitHub)]\<rparr>),
      (''3'', \<lparr>name = ''All Sites'', sites = []\<rparr>)]"

text \<open>\<^verbatim>\<open>CATEGORIES[c]["sites"]\<close>; the three keys are fixed, a missing one reads as empty.\<close>

definition sites_of :: "(string \<times> category) list \<Rightarrow> string \<Rightarrow> (string \<times> site_config) list" where
  "sites_of cats c = (case map_of cats c of None \<Rightarrow> [] | Some cat \<Rightarrow> sites cat)"

text \<open>\<^verbatim>\<open>CATEGORIES["3"]["sites"] = {**CATEGORIES["1"]["sites"], **CATEGORIES["2"]["sites"]}\<close>\<close>

definition CATEGORIES :: "(string \<times> category) list" where
  "CATEGORIES =
     map (\<lambda>(c, cat).
            if c = ''3''
            then (c, cat\<lparr>sites := dict_merge (sites_of CATEGORIES_literal ''1'')
                                               (sites_of CATEGORIES_literal ''2'')\<rparr>)
            else (c, cat))
         CATEGORIES_literal"


section \<open>What the network and the browser answer\<close>

text \<open>
  The two fetches are the program's only inputs besides the handle, so their
  answers are parameters. A \<^verbatim>\<open>requests.Response\<close> carries the status, the body
  and \<^verbatim>\<open>response.url\<close>, the address after redirects (which the checker never reads).
\<close>

record http_response =
  status_code :: int
  body_text :: string
  response_url :: string

text \<open>
  One browser session, step by step, in the order \<open>check_with_playwright\<close> performs
  them: each step returns or raises. \<open>goto\<close> returns the status of the navigation
  response, or \<open>None\<close> when \<^verbatim>\<open>page.goto\<close> returns no response object.
\<close>

record playwright_run =
  start :: "exn option"
  launch :: "exn option"
  new_context :: "exn option"
  new_page :: "exn option"
  goto :: "exn + int option"
  wait_for_timeout :: "exn option"
  page_content :: "exn + string"
  page_url :: string
  browser_close :: "exn option"

text \<open>
  The world answers \<^verbatim>\<open>requests.get(url)\<close> by URL and provides the browser session
  that the call for a handle and a URL template gets.
\<close>

record world =
  requests_get :: "string \<Rightarrow> exn + http_response"
  sync_playwright :: "string \<Rightarrow> string \<Rightarrow> playwright_run"

text \<open>
  The calls the program makes on the browser are recorded as events: \<open>Start\<close> and
  \<open>Stop\<close> are the entry and exit of the \<^verbatim>\<open>with sync_playwright() as p\<close> block,
  \<open>Launch\<close> is \<^verbatim>\<open>p.chromium.launch\<close> and \<open>Close\<close> is \<^verbatim>\<open>browser.close()\<close>.
  A session state follows them: the driver runs between \<open>Start\<close> and \<open>Stop\<close>, and
  a browser counts as open from its launch until the program closes it. The program
  has no other call that closes a browser.
\<close>

datatype event = Start | Launch | Close | Stop

record session =
  driver_running :: bool
  browser_open :: bool

fun apply_event :: "event \<Rightarrow> session \<Rightarrow> session" where
  "apply_event Start s = s\<lparr>driver_running := True\<rparr>"
| "apply_event Launch s = s\<lparr>browser_open := True\<rparr>"
| "apply_event Close s = s\<lparr>browser_open := False\<rparr>"
| "apply_event Stop s = s\<lparr>driver_running := False\<rparr>"

definition session_after :: "event list \<Rightarrow> session" where
  "session_after evs = fold apply_event evs \<lparr>driver_running = False, browser_open = False\<rparr>"


section \<open>The rendered check\<close>

text \<open>The loop over \<open>failure_indicators\<close>: the first marker found in the content ends it.\<close>

fun failure_found :: "string list \<Rightarrow> string \<Rightarrow> bool" where
  "failure_found [] content = False"
| "failure_found (indicator # rest) content =
     (if py_in (lower indicator) content then True else failure_found rest content)"

text \<open>The loop over \<open>success_indicators\<close>; formatting an indicator may raise.\<close>

fun success_found :: "string list \<Rightarrow> string \<Rightarrow> string \<Rightarrow> exn + bool" where
  "success_found [] username content = Inr False"
| "success_found (indicator # rest) username content =
     (case py_format indicator username of
        Inl e \<Rightarrow> Inl e
      | Inr formatted_indicator \<Rightarrow>
          if py_in (lower formatted_indicator) content then Inr True
          else success_found rest username content)"

text \<open>The platform branches under \<^verbatim>\<open>response.status == 200\<close>; no branch, no match.\<close>

definition platform_check :: "string \<Rightarrow> string \<Rightarrow> string \<Rightarrow> bool" where
  "platform_check username target current_url =
     (if py_in ''snapchat.com'' target then
        \<not> py_in ''/explore/'' current_url \<and> py_in (lower username) (lower current_url)
      else if py_in ''instagram.com'' target then
        py_in (''/'' @ username @ ''/'') current_url \<and> \<not> py_in ''login'' current_url
      else if py_in ''x.com'' target \<or> py_in ''twitter.com'' target then
        py_in (''/'' @ username) current_url \<and> \<not> py_in ''home'' current_url
      else False)"

text \<open>Lines 113 to 146: the decision once content and current URL are in hand.\<close>

definition decide_page ::
  "string \<Rightarrow> site_config \<Rightarrow> string \<Rightarrow> int option \<Rightarrow> string \<Rightarrow> string \<Rightarrow> exn + bool \<times> string"
where
  "decide_page username site_config target response content current_url =
     (if failure_found (failure_indicators site_config) content then Inr (False, ''Not Found'')
      else
        (case success_found (success_indicators site_config) username content of
           Inl e \<Rightarrow> Inl e
         | Inr hit \<Rightarrow>
             if hit then Inr (True, target)
             else if response = Some 200 \<and> platform_check username target current_url
             then Inr (True, target)
             else Inr (False, ''Not Found'')))"

text \<open>The body of the \<^verbatim>\<open>with\<close> block, with the events so far.\<close>

definition playwright_block ::
  "playwright_run \<Rightarrow> string \<Rightarrow> site_config \<Rightarrow> event list \<Rightarrow> (exn + bool \<times> string) \<times> event list"
where
  "playwright_block run username site_config evs =
     (case launch run of Some e \<Rightarrow> (Inl e, evs) | None \<Rightarrow>
      (case new_context run of Some e \<Rightarrow> (Inl e, evs @ [Launch]) | None \<Rightarrow>
      (case new_page run of Some e \<Rightarrow> (Inl e, evs @ [Launch]) | None \<Rightarrow>
      (case py_format (url site_config) username of Inl e \<Rightarrow> (Inl e, evs @ [Launch]) | Inr target \<Rightarrow>
      (case goto run of Inl e \<Rightarrow> (Inl e, evs @ [Launch]) | Inr response \<Rightarrow>
      (case wait_for_timeout run of Some e \<Rightarrow> (Inl e, evs @ [Launch]) | None \<Rightarrow>
      (case page_content run of Inl e \<Rightarrow> (Inl e, evs @ [Launch]) | Inr html \<Rightarrow>
      (case browser_close run of Some e \<Rightarrow> (Inl e, evs @ [Launch]) | None \<Rightarrow>
         (decide_page username site_config target response (lower html) (page_url run),
          evs @ [Launch, Close])))))))))"

text \<open>
  \<^verbatim>\<open>try: with sync_playwright() as p: ... except Exception: return False, "Error checking"\<close>.
  Leaving the block, by return or by exception, runs the exit of the context manager.
\<close>

definition check_with_playwright ::
  "playwright_run \<Rightarrow> string \<Rightarrow> site_config \<Rightarrow> (bool \<times> string) \<times> event list"
where
  "check_with_playwright run username site_config =
     (case start run of
        Some e \<Rightarrow> ((False, ''Error checking''), [])
      | None \<Rightarrow>
          (case playwright_block run username site_config [Start] of
             (Inl e, evs) \<Rightarrow> ((False, ''Error checking''), evs @ [Stop])
           | (Inr result, evs) \<Rightarrow> (result, evs @ [Stop])))"


section \<open>The lightweight check\<close>

text \<open>
  Only \<^verbatim>\<open>requests.RequestException\<close> is caught; any other exception raised inside
  the \<^verbatim>\<open>try\<close> leaves the function.
\<close>

definition check_with_requests ::
  "(string \<Rightarrow> exn + http_response) \<Rightarrow> string \<Rightarrow> site_config \<Rightarrow> exn + bool \<times> string"
where
  "check_with_requests get username site_config =
     (case py_format (url site_config) username of
        Inl e \<Rightarrow> (if e = RequestException then Inr (False, ''Error checking'') else Inl e)
      | Inr target \<Rightarrow>
          (case get target of
             Inl e \<Rightarrow> (if e = RequestException then Inr (False, ''Error checking'') else Inl e)
           | Inr response \<Rightarrow>
               if py_in ''api.github.com'' target then
                 Inr (status_code response = 200,
                      if status_code response = 200 then target else ''Not Found'')
               else if status_code response = 200 then
                 (if failure_found (failure_indicators site_config) (lower (body_text response))
                  then Inr (False, ''Not Found'')
                  else Inr (True, target))
               else Inr (False, ''Not Found'')))"


section \<open>The batch\<close>

text \<open>The body of the loop in \<open>check_username\<close>: the method selects the check.\<close>

definition check_site :: "world \<Rightarrow> string \<Rightarrow> site_config \<Rightarrow> exn + bool \<times> string" where
  "check_site w username site_config =
     (if fetch_method site_config = ''playwright''
      then Inr (fst (check_with_playwright (sync_playwright w username (url site_config))
                       username site_config))
      else check_with_requests (requests_get w) username site_config)"

fun check_username_loop ::
  "world \<Rightarrow> string \<Rightarrow> (string \<times> site_config) list \<Rightarrow> (string \<times> bool \<times> string) list
     \<Rightarrow> exn + (string \<times> bool \<times> string) list"
where
  "check_username_loop w username [] results = Inr results"
| "check_username_loop w username ((site_name, site_config) # rest) results =
     (case check_site w username site_config of
        Inl e \<Rightarrow> Inl e
      | Inr r \<Rightarrow> check_username_loop w username rest (dict_set results site_name r))"

definition check_username ::
  "world \<Rightarrow> string \<Rightarrow> (string \<times> site_config) list \<Rightarrow> exn + (string \<times> bool \<times> string) list"
where
  "check_username w username sites_dict = check_username_loop w username sites_dict []"



section \<open>The score\<close>








definition total_sites :: "(string \<times> bool \<times> string) list \<Rightarrow> nat" where
  "total_sites results = length results"



section \<open>Vocabulary of the statements\<close>

text \<open>
  The browser session ran through, from \<^verbatim>\<open>sync_playwright()\<close> to \<^verbatim>\<open>browser.close()\<close>:
  the navigation answered \<open>response\<close> and the page content was \<open>html\<close>.
\<close>

definition loads :: "playwright_run \<Rightarrow> int option \<Rightarrow> string \<Rightarrow> bool" where
  "loads run response html \<longleftrightarrow>
     start run = None \<and> launch run = None \<and> new_context run = None \<and> new_page run = None \<and>
     goto run = Inr response \<and> wait_for_timeout run = None \<and> page_content run = Inr html \<and>
     browser_close run = None"


text \<open>
  Nothing but a \<^verbatim>\<open>RequestException\<close> can leave the lightweight check of this site:
  its URL template takes the handle, and \<^verbatim>\<open>requests.get\<close> answers or raises a
  \<^verbatim>\<open>RequestException\<close>. A rendered check catches everything.
\<close>

definition checkable :: "world \<Rightarrow> string \<Rightarrow> site_config \<Rightarrow> bool" where
  "checkable w username site_config \<longleftrightarrow>
     fetch_method site_config = ''playwright'' \<or>
     (case py_format (url site_config) username of
        Inl e \<Rightarrow> False
      | Inr target \<Rightarrow>
          (case requests_get w target of Inl e \<Rightarrow> e = RequestException | Inr response \<Rightarrow> True))"





section \<open>Example inputs\<close>

definition two_social :: "(string \<times> nat) list" where
  "two_social = [(''Instagram'', 1), (''GitHub'', 2)]"

definition two_tech :: "(string \<times> nat) list" where
  "two_tech = [(''GitHub'', 3), (''LinkedIn'', 4)]"

definition loaded_page :: "int option \<Rightarrow> string \<Rightarrow> string \<Rightarrow> playwright_run" where
  "loaded_page response html current =
     \<lparr>start = None, launch = None, new_context = None, new_page = None,
      goto = Inr response, wait_for_timeout = None, page_content = Inr html,
      page_url = current, browser_close = None\<rparr>"

definition removed_profile :: playwright_run where
  "removed_profile =
     loaded_page (Some 200) ''<h2>Sorry, this page isn't available.</h2> profilePage_0''
       ''https://www.instagram.com/alice/''"

definition redirected_profile :: playwright_run where
  "redirected_profile =
     loaded_page (Some 200) ''<script>profilePage_42</script>''
       ''https://www.instagram.com/alice/?hl=en''"

definition no_response_page :: playwright_run where
  "no_response_page = loaded_page None ''<html></html>'' ''https://www.instagram.com/alice/''"

definition server_error_page :: playwright_run where
  "server_error_page = loaded_page (Some 503) ''<html></html>'' ''https://www.instagram.com/alice/''"

definition plain_page :: playwright_run where
  "plain_page = loaded_page (Some 200) ''ok'' ''https://api.example.org/users/alice''"

definition navigation_timeout :: playwright_run where
  "navigation_timeout = (loaded_page None [] [])\<lparr>goto := Inl PlaywrightError\<rparr>"

definition answer_200 :: "string \<Rightarrow> string \<Rightarrow> exn + http_response" where
  "answer_200 body t = Inr \<lparr>status_code = 200, body_text = body, response_url = t\<rparr>"

definition answer_404 :: "string \<Rightarrow> exn + http_response" where
  "answer_404 t = Inr \<lparr>status_code = 404, body_text = ''missing'', response_url = t\<rparr>"

definition moved_answer :: "string \<Rightarrow> exn + http_response" where
  "moved_answer t =
     Inr \<lparr>status_code = 200, body_text = ''ok'',
          response_url = ''https://api.example.org/v2/users/alice''\<rparr>"

definition github_with_marker :: site_config where
  "github_with_marker = GitHub\<lparr>failure_indicators := [''Not Found'']\<rparr>"

definition plain_api :: site_config where
  "plain_api =
     \<lparr>url = ''https://api.example.org/users/{}'', fetch_method = ''requests'',
      success_indicators = [], failure_indicators = []\<rparr>"

definition small_world :: world where
  "small_world =
     \<lparr>requests_get =
        (\<lambda>t. if t = ''https://api.github.com/users/alice''
             then Inr \<lparr>status_code = 200, body_text = ''login: alice'', response_url = t\<rparr>
             else Inl RequestException),
      sync_playwright = (\<lambda>username template. navigation_timeout)\<rparr>"


section \<open>Dictionaries: assignment and merge\<close>

lemma map_of_dict_set: "map_of (dict_set d k v) = (map_of d)(k \<mapsto> v)"
  by (induction d k v rule: dict_set.induct) (auto simp: fun_eq_iff)

lemma keys_dict_set:
  "map fst (dict_set d k v) = (if k \<in> fst ` set d then map fst d else map fst d @ [k])"
  by (induction d k v rule: dict_set.induct) (auto simp: image_iff)

lemma distinct_dict_set: "distinct (map fst d) \<Longrightarrow> distinct (map fst (dict_set d k v))"
  by (simp add: keys_dict_set)

lemma distinct_fold_set:
  "distinct (map fst d) \<Longrightarrow> distinct (map fst (fold (\<lambda>(k, v) d. dict_set d k v) xs d))"
  by (induction xs arbitrary: d) (auto simp: distinct_dict_set)

lemma keys_fold_set:
  "fst ` set (fold (\<lambda>(k, v) d. dict_set d k v) xs d) = fst ` set d \<union> fst ` set xs"
proof (induction xs arbitrary: d)
  case Nil
  then show ?case by simp
next
  case (Cons x xs)
  obtain k v where x: "x = (k, v)" by (cases x)
  have "set (map fst (dict_set d k v)) = insert k (fst ` set d)"
    by (auto simp: keys_dict_set)
  then have "fst ` set (dict_set d k v) = insert k (fst ` set d)"
    by simp
  then show ?case using Cons.IH [of "dict_set d k v"] x by auto
qed

lemma map_of_fold_set:
  "distinct (map fst xs) \<Longrightarrow>
   map_of (fold (\<lambda>(k, v) d. dict_set d k v) xs d) = map_of d ++ map_of xs"
proof (induction xs arbitrary: d)
  case Nil
  then show ?case by simp
next
  case (Cons x xs)
  obtain k v where x: "x = (k, v)" by (cases x)
  from Cons.prems x have k: "k \<notin> fst ` set xs" and dx: "distinct (map fst xs)" by auto
  have "map_of (fold (\<lambda>(k, v) d. dict_set d k v) (x # xs) d) =
        map_of (dict_set d k v) ++ map_of xs"
    using Cons.IH [OF dx, of "dict_set d k v"] x by simp
  also have "\<dots> = (map_of d)(k \<mapsto> v) ++ map_of xs"
    by (simp only: map_of_dict_set)
  also have "\<dots> = map_of d ++ map_of (x # xs)"
  proof -
    from k have none: "map_of xs k = None" by (simp add: map_of_eq_None_iff)
    show ?thesis
      unfolding x by (rule ext) (simp add: map_add_def none split: option.splits)
  qed
  finally show ?case .
qed

lemma dict_merge_fold:
  "dict_merge a b = fold (\<lambda>(k, v) d. dict_set d k v) b (fold (\<lambda>(k, v) d. dict_set d k v) a [])"
  by (simp add: dict_merge_def)

lemma all_sites_literal:
  "sites_of CATEGORIES ''3'' = dict_merge (sites_of CATEGORIES ''1'') (sites_of CATEGORIES ''2'')"
  by (simp add: sites_of_def CATEGORIES_def CATEGORIES_literal_def)

text \<open>
  C6. The sites of category 3 are the merge of the sites of categories 1 and 2, and
  the merge of two dictionaries is their union by name: a lookup answers from the
  later dictionary where both have the name and from the one that has it
  otherwise, every name of either occurs, and no name occurs twice.
\<close>

theorem all_sites_is_union_by_name:
  assumes "distinct (map fst a)" and "distinct (map fst b)"
  shows "sites_of CATEGORIES ''3'' =
           dict_merge (sites_of CATEGORIES ''1'') (sites_of CATEGORIES ''2'') \<and>
         map_of (dict_merge a b) = map_of a ++ map_of b \<and>
         fst ` set (dict_merge a b) = fst ` set a \<union> fst ` set b \<and>
         distinct (map fst (dict_merge a b))"
proof -
  have "map_of (dict_merge a b) = map_of a ++ map_of b"
    unfolding dict_merge_fold using assms by (simp add: map_of_fold_set)
  moreover have "fst ` set (dict_merge a b) = fst ` set a \<union> fst ` set b"
    unfolding dict_merge_fold by (simp add: keys_fold_set)
  moreover have "distinct (map fst (dict_merge a b))"
    unfolding dict_merge_fold by (simp add: distinct_fold_set)
  ultimately show ?thesis using all_sites_literal by simp
qed

theorem all_sites_is_union_by_name_witness:
  "distinct (map fst two_social) \<and> distinct (map fst two_tech) \<and>
   dict_merge two_social two_tech = [(''Instagram'', 1), (''GitHub'', 3), (''LinkedIn'', 4)] \<and>
   map_of (dict_merge two_social two_tech) = map_of two_social ++ map_of two_tech \<and>
   distinct (map fst (dict_merge two_social two_tech)) \<and>
   map fst (sites_of CATEGORIES ''3'') =
     [''Instagram'', ''Facebook'', ''Twitter'', ''Snapchat'', ''LinkedIn'', ''GitHub'']"
proof -
  have a: "distinct (map fst two_social)" by (simp add: two_social_def)
  have b: "distinct (map fst two_tech)" by (simp add: two_tech_def)
  have c: "dict_merge two_social two_tech = [(''Instagram'', 1), (''GitHub'', 3), (''LinkedIn'', 4)]"
    by (simp add: dict_merge_def two_social_def two_tech_def)
  have d: "map fst (dict_merge (sites_of CATEGORIES ''1'') (sites_of CATEGORIES ''2'')) =
        [''Instagram'', ''Facebook'', ''Twitter'', ''Snapchat'', ''LinkedIn'', ''GitHub'']"
    by (simp add: sites_of_def CATEGORIES_def CATEGORIES_literal_def dict_merge_def)
  from all_sites_is_union_by_name [OF a b] a b c d show ?thesis by simp
qed

section \<open>The checks, step by step\<close>

lemma py_in_iff: "py_in needle hay \<longleftrightarrow> (\<exists>p q. hay = p @ needle @ q)"
  by (simp add: py_in_def sublist_def)

lemma failure_found_iff: "failure_found ms c \<longleftrightarrow> (\<exists>m\<in>set ms. py_in (lower m) c)"
  by (induction ms) auto

lemma success_found_hit:
  assumes "\<forall>m\<in>set ms. \<exists>f. py_format m u = Inr f"
    and "m \<in> set ms" and "py_format m u = Inr f" and "py_in (lower f) c"
  shows "success_found ms u c = Inr True"
  using assms by (induction ms) auto

lemma success_found_miss:
  assumes "\<forall>m\<in>set ms. \<exists>f. py_format m u = Inr f \<and> \<not> py_in (lower f) c"
  shows "success_found ms u c = Inr False"
  using assms by (induction ms) auto

lemma playwright_block_loads:
  assumes "loads run response html" and "py_format (url cfg) u = Inr t"
  shows "playwright_block run u cfg evs =
           (decide_page u cfg t response (lower html) (page_url run), evs @ [Launch, Close])"
  using assms by (simp add: loads_def playwright_block_def)

lemma check_with_playwright_loads:
  assumes "loads run response html" and "py_format (url cfg) u = Inr t"
  shows "fst (check_with_playwright run u cfg) =
           (case decide_page u cfg t response (lower html) (page_url run) of
              Inl e \<Rightarrow> (False, ''Error checking'') | Inr r \<Rightarrow> r)"
proof -
  have "start run = None" using assms(1) by (simp add: loads_def)
  then show ?thesis
    by (simp add: check_with_playwright_def playwright_block_loads [OF assms] split: sum.splits)
qed








lemma check_site_returns:
  assumes "checkable w u cfg"
  shows "\<exists>r. check_site w u cfg = Inr r"
  using assms
  by (auto simp: checkable_def check_site_def check_with_requests_def
           split: sum.splits if_splits)


lemma dict_set_fresh: "k \<notin> fst ` set d \<Longrightarrow> dict_set d k v = d @ [(k, v)]"
  by (induction d k v rule: dict_set.induct) auto

lemma check_username_loop_returns:
  assumes "\<forall>(n, c)\<in>set sts. checkable w u c"
    and "distinct (map fst acc @ map fst sts)"
  shows "check_username_loop w u sts acc =
           Inr (acc @ map (\<lambda>(n, c). (n, projr (check_site w u c))) sts)"
  using assms
proof (induction sts arbitrary: acc)
  case Nil
  then show ?case by simp
next
  case (Cons s sts)
  obtain n c where s: "s = (n, c)" by (cases s)
  from Cons.prems(1) s obtain r where r: "check_site w u c = Inr r"
    using check_site_returns by fastforce
  from Cons.prems(2) s have fresh: "n \<notin> fst ` set acc" by auto
  have d: "distinct (map fst (dict_set acc n r) @ map fst sts)"
    using Cons.prems(2) s by (simp add: dict_set_fresh [OF fresh])
  have "check_username_loop w u (s # sts) acc = check_username_loop w u sts (dict_set acc n r)"
    using s r by simp
  also have "\<dots> = Inr (dict_set acc n r @ map (\<lambda>(n, c). (n, projr (check_site w u c))) sts)"
    using Cons.IH [OF _ d] Cons.prems(1) by simp
  finally show ?case using s r by (simp add: dict_set_fresh [OF fresh])
qed

lemma check_username_returns:
  assumes "\<forall>(n, c)\<in>set sts. checkable w u c" and "distinct (map fst sts)"
  shows "check_username w u sts = Inr (map (\<lambda>(n, c). (n, projr (check_site w u c))) sts)"
  using check_username_loop_returns [OF assms(1), of "[]"] assms(2)
  by (simp add: check_username_def)



text \<open>
  The catalogue meets the conditions of the batch statements whenever
  \<^verbatim>\<open>requests.get\<close> raises nothing but a \<^verbatim>\<open>RequestException\<close>: the names of a
  category are distinct and every URL template takes any handle.
\<close>

lemma catalogue_templates:
  "py_format (url Instagram) u = Inr (''https://www.instagram.com/'' @ u @ ''/'')"
  "py_format (url Facebook) u = Inr (''https://www.facebook.com/'' @ u @ ''/'')"
  "py_format (url Twitter) u = Inr (''https://x.com/'' @ u @ ''/'')"
  "py_format (url Snapchat) u = Inr (''https://www.snapchat.com/add/'' @ u @ ''/'')"
  "py_format (url LinkedIn) u = Inr (''https://www.linkedin.com/in/'' @ u @ ''/'')"
  "py_format (url GitHub) u = Inr (''https://api.github.com/users/'' @ u)"
  by (simp_all add: py_format_def Instagram_def Facebook_def Twitter_def Snapchat_def
        LinkedIn_def GitHub_def)

lemma catalogue_sites:
  assumes "(n, c) \<in> set (sites_of CATEGORIES k)"
  shows "c \<in> {Instagram, Facebook, Twitter, Snapchat, LinkedIn, GitHub}"
proof -
  have "set (sites_of CATEGORIES k) \<subseteq>
          {(''Instagram'', Instagram), (''Facebook'', Facebook), (''Twitter'', Twitter),
           (''Snapchat'', Snapchat), (''LinkedIn'', LinkedIn), (''GitHub'', GitHub)}"
    by (auto simp: sites_of_def CATEGORIES_def CATEGORIES_literal_def dict_merge_def
             split: if_splits)
  with assms show ?thesis by auto
qed

lemma catalogue_checkable:
  assumes "\<And>t e. requests_get w t = Inl e \<Longrightarrow> e = RequestException"
    and "(n, c) \<in> set (sites_of CATEGORIES k)"
  shows "checkable w u c"
proof -
  have ok: "\<And>t. case requests_get w t of Inl e \<Rightarrow> e = RequestException | Inr response \<Rightarrow> True"
    using assms(1) by (simp split: sum.splits)
  from catalogue_sites [OF assms(2)] show ?thesis
    using ok by (auto simp: checkable_def catalogue_templates)
qed

lemma catalogue_names_distinct: "distinct (map fst (sites_of CATEGORIES k))"
  by (simp add: sites_of_def CATEGORIES_def CATEGORIES_literal_def dict_merge_def)


text \<open>
  The events of a rendered check: the driver is stopped on every path, and the
  browser is closed by the program exactly when every step went through.
\<close>

lemma driver_stopped:
  "\<not> driver_running (session_after (snd (check_with_playwright run u cfg)))"
proof (cases "start run")
  case (Some e)
  then show ?thesis by (simp add: check_with_playwright_def session_after_def)
next
  case None
  obtain r evs where b: "playwright_block run u cfg [Start] = (r, evs)"
    by (cases "playwright_block run u cfg [Start]")
  show ?thesis
    using None b by (cases r) (simp_all add: check_with_playwright_def session_after_def)
qed

lemma close_only_after_load:
  "Close \<in> set (snd (check_with_playwright run u cfg)) \<longleftrightarrow>
     (\<exists>response html. loads run response html) \<and> \<not> isl (py_format (url cfg) u)"
  by (auto simp: check_with_playwright_def playwright_block_def loads_def
           split: option.splits sum.splits prod.splits)

text \<open>A report has at most one entry per site, and no category has more than six sites.\<close>

lemma dict_set_length: "length (dict_set d k v) \<le> Suc (length d)"
  by (induction d k v rule: dict_set.induct) auto

lemma check_username_loop_length:
  "check_username_loop w u sts acc = Inr results \<Longrightarrow> length results \<le> length acc + length sts"
proof (induction sts arbitrary: acc)
  case Nil
  then show ?case by simp
next
  case (Cons s sts)
  obtain n c where s: "s = (n, c)" by (cases s)
  from Cons.prems s obtain r where r: "check_site w u c = Inr r"
    and rest: "check_username_loop w u sts (dict_set acc n r) = Inr results"
    by (auto split: sum.splits)
  from Cons.IH [OF rest] dict_set_length [of acc n r] show ?case by simp
qed

lemma catalogue_size: "length (sites_of CATEGORIES k) \<le> 6"
  by (simp add: sites_of_def CATEGORIES_def CATEGORIES_literal_def dict_merge_def)

lemma catalogue_report_size:
  assumes "check_username w u (sites_of CATEGORIES k) = Inr results"
  shows "total_sites results \<le> 6"
  using check_username_loop_length [of w u "sites_of CATEGORIES k" "[]" results] assms
    catalogue_size [of k]
  by (simp add: check_username_def total_sites_def)




section \<open>Failure markers come first\<close>

text \<open>
  C1, as the code has it. When the page or response body contains a failure marker
  of the site (both lowercased), the result is \<^verbatim>\<open>(False, "Not Found")\<close>, whatever
  success markers the body also contains and wherever the marker stands in the
  list: for the rendered check once the page has loaded, and for the lightweight
  check of a URL without the fragment \<^verbatim>\<open>api.github.com\<close>.
\<close>

theorem failure_marker_wins:
  "(loads run response html \<and> py_format (url cfg) u = Inr t \<and>
      m \<in> set (failure_indicators cfg) \<and> py_in (lower m) (lower html)
      \<longrightarrow> fst (check_with_playwright run u cfg) = (False, ''Not Found''))
   \<and> (py_format (url cfg) u = Inr t \<and> \<not> py_in ''api.github.com'' t \<and> get t = Inr resp \<and>
      m \<in> set (failure_indicators cfg) \<and> py_in (lower m) (lower (body_text resp))
      \<longrightarrow> check_with_requests get u cfg = Inr (False, ''Not Found''))"
proof (intro conjI impI)
  assume a: "loads run response html \<and> py_format (url cfg) u = Inr t \<and>
      m \<in> set (failure_indicators cfg) \<and> py_in (lower m) (lower html)"
  then have "failure_found (failure_indicators cfg) (lower html)"
    by (auto simp: failure_found_iff)
  then have "decide_page u cfg t response (lower html) (page_url run) = Inr (False, ''Not Found'')"
    by (simp add: decide_page_def)
  with a show "fst (check_with_playwright run u cfg) = (False, ''Not Found'')"
    by (simp add: check_with_playwright_loads [of run response html cfg u t])
next
  assume a: "py_format (url cfg) u = Inr t \<and> \<not> py_in ''api.github.com'' t \<and> get t = Inr resp \<and>
      m \<in> set (failure_indicators cfg) \<and> py_in (lower m) (lower (body_text resp))"
  then have "failure_found (failure_indicators cfg) (lower (body_text resp))"
    by (auto simp: failure_found_iff)
  with a show "check_with_requests get u cfg = Inr (False, ''Not Found'')"
    by (simp add: check_with_requests_def)
qed

theorem failure_marker_wins_witness:
  "loads removed_profile (Some 200) ''<h2>Sorry, this page isn't available.</h2> profilePage_0'' \<and>
   py_in (lower ''profilePage_'') (lower ''<h2>Sorry, this page isn't available.</h2> profilePage_0'') \<and>
   fst (check_with_playwright removed_profile ''alice'' Instagram) = (False, ''Not Found'') \<and>
   \<not> py_in ''api.github.com'' ''https://www.facebook.com/alice/'' \<and>
   check_with_requests (answer_200 ''Page Not Found'') ''alice'' Facebook = Inr (False, ''Not Found'')"
proof -
  have l: "loads removed_profile (Some 200) ''<h2>Sorry, this page isn't available.</h2> profilePage_0''"
    by (simp add: loads_def removed_profile_def loaded_page_def)
  have s: "py_in (lower ''profilePage_'') (lower ''<h2>Sorry, this page isn't available.</h2> profilePage_0'')"
    by code_simp
  have f1: "py_format (url Instagram) ''alice'' = Inr ''https://www.instagram.com/alice/''"
    by code_simp
  have m1: "''Sorry, this page isn't available'' \<in> set (failure_indicators Instagram)"
    by (simp add: Instagram_def)
  have i1: "py_in (lower ''Sorry, this page isn't available'')
              (lower ''<h2>Sorry, this page isn't available.</h2> profilePage_0'')"
    by code_simp
  have f2: "py_format (url Facebook) ''alice'' = Inr ''https://www.facebook.com/alice/''"
    by code_simp
  have g2: "\<not> py_in ''api.github.com'' ''https://www.facebook.com/alice/''"
    by code_simp
  have r2: "answer_200 ''Page Not Found'' ''https://www.facebook.com/alice/'' =
              Inr \<lparr>status_code = 200, body_text = ''Page Not Found'',
                   response_url = ''https://www.facebook.com/alice/''\<rparr>"
    by (simp add: answer_200_def)
  have m2: "''Page not found'' \<in> set (failure_indicators Facebook)"
    by (simp add: Facebook_def)
  have i2: "py_in (lower ''Page not found'') (lower ''Page Not Found'')"
    by code_simp
  have c1: "fst (check_with_playwright removed_profile ''alice'' Instagram) = (False, ''Not Found'')"
    using failure_marker_wins [where run = removed_profile and response = "Some 200"
        and html = "''<h2>Sorry, this page isn't available.</h2> profilePage_0''"
        and cfg = Instagram and u = "''alice''" and t = "''https://www.instagram.com/alice/''"
        and m = "''Sorry, this page isn't available''"] l f1 m1 i1
    by blast
  have i2': "py_in (lower ''Page not found'')
      (lower (body_text \<lparr>status_code = 200, body_text = ''Page Not Found'',
                   response_url = ''https://www.facebook.com/alice/''\<rparr>))"
    using i2 by simp
  have c2: "check_with_requests (answer_200 ''Page Not Found'') ''alice'' Facebook = Inr (False, ''Not Found'')"
    using failure_marker_wins [where cfg = Facebook and u = "''alice''"
        and t = "''https://www.facebook.com/alice/''" and get = "answer_200 ''Page Not Found''"
        and resp = "\<lparr>status_code = 200, body_text = ''Page Not Found'',
                   response_url = ''https://www.facebook.com/alice/''\<rparr>"
        and m = "''Page not found''"] f2 g2 r2 m2 i2'
    by blast
  from l s c1 g2 c2 show ?thesis by blast
qed

text \<open>
  C1 as stated fails on the lightweight check of a URL that contains
  \<^verbatim>\<open>api.github.com\<close>: the status alone decides there, and a body with a failure
  marker of the site is reported as found.
\<close>

theorem failure_marker_ignored_counterexample:
  "py_in (lower ''Not Found'') (lower ''message: Not Found'') \<and>
   check_with_requests (answer_200 ''message: Not Found'') ''alice'' github_with_marker =
     Inr (True, ''https://api.github.com/users/alice'')"
  by code_simp

section \<open>Success markers and the reported address\<close>

text \<open>
  C2, as the code has it. Rendered check: when the page has loaded, no failure marker
  occurs in the lowercased content and some success marker, with the handle
  substituted and lowercased, does, the result is found at the request URL (the URL
  template with the handle substituted). Lightweight check: a response with status
  200 whose lowercased body contains no failure marker is found at the request URL;
  success markers are not consulted there.
\<close>

theorem success_marker_found_at_request_url:
  "(loads run response html \<and> py_format (url cfg) u = Inr t \<and>
      (\<forall>m\<in>set (failure_indicators cfg). \<not> py_in (lower m) (lower html)) \<and>
      (\<forall>m\<in>set (success_indicators cfg). \<exists>f. py_format m u = Inr f) \<and>
      m \<in> set (success_indicators cfg) \<and> py_format m u = Inr f \<and> py_in (lower f) (lower html)
      \<longrightarrow> fst (check_with_playwright run u cfg) = (True, t))
   \<and> (py_format (url cfg) u = Inr t \<and> get t = Inr resp \<and> status_code resp = 200 \<and>
      (\<forall>m\<in>set (failure_indicators cfg). \<not> py_in (lower m) (lower (body_text resp)))
      \<longrightarrow> check_with_requests get u cfg = Inr (True, t))"
proof (intro conjI impI)
  assume a: "loads run response html \<and> py_format (url cfg) u = Inr t \<and>
      (\<forall>m\<in>set (failure_indicators cfg). \<not> py_in (lower m) (lower html)) \<and>
      (\<forall>m\<in>set (success_indicators cfg). \<exists>f. py_format m u = Inr f) \<and>
      m \<in> set (success_indicators cfg) \<and> py_format m u = Inr f \<and> py_in (lower f) (lower html)"
  then have nf: "\<not> failure_found (failure_indicators cfg) (lower html)"
    by (simp add: failure_found_iff)
  from a have "success_found (success_indicators cfg) u (lower html) = Inr True"
    by (intro success_found_hit [of _ u m f]) simp_all
  with nf have "decide_page u cfg t response (lower html) (page_url run) = Inr (True, t)"
    by (simp add: decide_page_def)
  with a show "fst (check_with_playwright run u cfg) = (True, t)"
    by (simp add: check_with_playwright_loads [of run response html cfg u t])
next
  assume a: "py_format (url cfg) u = Inr t \<and> get t = Inr resp \<and> status_code resp = 200 \<and>
      (\<forall>m\<in>set (failure_indicators cfg). \<not> py_in (lower m) (lower (body_text resp)))"
  then have "\<not> failure_found (failure_indicators cfg) (lower (body_text resp))"
    by (simp add: failure_found_iff)
  with a show "check_with_requests get u cfg = Inr (True, t)"
    by (simp add: check_with_requests_def)
qed

theorem success_marker_found_at_request_url_witness:
  "loads redirected_profile (Some 200) ''<script>profilePage_42</script>'' \<and>
   py_in (lower ''profilePage_'') (lower ''<script>profilePage_42</script>'') \<and>
   fst (check_with_playwright redirected_profile ''alice'' Instagram) =
     (True, ''https://www.instagram.com/alice/'') \<and>
   check_with_requests (answer_200 ''Welcome'') ''alice'' Facebook =
     Inr (True, ''https://www.facebook.com/alice/'')"
proof -
  have l: "loads redirected_profile (Some 200) ''<script>profilePage_42</script>''"
    by (simp add: loads_def redirected_profile_def loaded_page_def)
  have f1: "py_format (url Instagram) ''alice'' = Inr ''https://www.instagram.com/alice/''"
    by code_simp
  have n1: "\<forall>m\<in>set (failure_indicators Instagram).
              \<not> py_in (lower m) (lower ''<script>profilePage_42</script>'')"
    by code_simp
  have s1: "\<forall>m\<in>set (success_indicators Instagram). \<exists>f. py_format m ''alice'' = Inr f"
  proof -
    have "list_all (\<lambda>m. \<not> isl (py_format m ''alice'')) (success_indicators Instagram)"
      by code_simp
    then show ?thesis
      by (auto simp: list_all_iff isl_def) (metis sum.exhaust)
  qed
  have m1: "''profilePage_'' \<in> set (success_indicators Instagram)"
    by (simp add: Instagram_def)
  have p1: "py_format ''profilePage_'' ''alice'' = Inr ''profilePage_''"
    by code_simp
  have i1: "py_in (lower ''profilePage_'') (lower ''<script>profilePage_42</script>'')"
    by code_simp
  have c1: "fst (check_with_playwright redirected_profile ''alice'' Instagram) =
              (True, ''https://www.instagram.com/alice/'')"
    using success_marker_found_at_request_url [where run = redirected_profile
        and response = "Some 200" and html = "''<script>profilePage_42</script>''"
        and cfg = Instagram and u = "''alice''" and t = "''https://www.instagram.com/alice/''"
        and m = "''profilePage_''" and f = "''profilePage_''"] l f1 n1 s1 m1 p1 i1
    by blast
  have f2: "py_format (url Facebook) ''alice'' = Inr ''https://www.facebook.com/alice/''"
    by code_simp
  have r2: "answer_200 ''Welcome'' ''https://www.facebook.com/alice/'' =
              Inr \<lparr>status_code = 200, body_text = ''Welcome'',
                   response_url = ''https://www.facebook.com/alice/''\<rparr>"
    by (simp add: answer_200_def)
  have s2: "status_code \<lparr>status_code = 200, body_text = ''Welcome'',
                   response_url = ''https://www.facebook.com/alice/''\<rparr> = 200"
    by simp
  have n2: "\<forall>m\<in>set (failure_indicators Facebook).
      \<not> py_in (lower m) (lower (body_text \<lparr>status_code = 200, body_text = ''Welcome'',
                   response_url = ''https://www.facebook.com/alice/''\<rparr>))"
    by code_simp
  have c2: "check_with_requests (answer_200 ''Welcome'') ''alice'' Facebook =
              Inr (True, ''https://www.facebook.com/alice/'')"
    using success_marker_found_at_request_url [where cfg = Facebook and u = "''alice''"
        and t = "''https://www.facebook.com/alice/''" and get = "answer_200 ''Welcome''"
        and resp = "\<lparr>status_code = 200, body_text = ''Welcome'',
                   response_url = ''https://www.facebook.com/alice/''\<rparr>"] f2 r2 s2 n2
    by blast
  from l i1 c1 c2 show ?thesis by blast
qed

text \<open>
  C2 as stated fails: the address reported with a find is the request URL, not the
  URL the browser ended on.
\<close>

theorem locator_is_final_url_counterexample:
  "loads redirected_profile (Some 200) ''<script>profilePage_42</script>'' \<and>
   \<not> failure_found (failure_indicators Instagram) (lower ''<script>profilePage_42</script>'') \<and>
   py_in (lower ''profilePage_'') (lower ''<script>profilePage_42</script>'') \<and>
   page_url redirected_profile = ''https://www.instagram.com/alice/?hl=en'' \<and>
   fst (check_with_playwright redirected_profile ''alice'' Instagram) =
     (True, ''https://www.instagram.com/alice/'') \<and>
   fst (check_with_playwright redirected_profile ''alice'' Instagram) \<noteq>
     (True, page_url redirected_profile)"
  by code_simp

section \<open>A bare 200\<close>

text \<open>
  C3, as the code has it. Lightweight check: for a site without failure markers, a
  response with status 200 is reported as found at the request URL (the URL
  template with the handle substituted), whatever its success markers and its
  domain.
\<close>

theorem unmarked_200_found_by_requests:
  assumes "py_format (url cfg) u = Inr t" and "get t = Inr resp"
    and "status_code resp = 200" and "failure_indicators cfg = []"
  shows "check_with_requests get u cfg = Inr (True, t)"
  using assms by (simp add: check_with_requests_def)

theorem unmarked_200_found_by_requests_witness:
  "failure_indicators plain_api = [] \<and>
   py_format (url plain_api) ''alice'' = Inr ''https://api.example.org/users/alice'' \<and>
   check_with_requests moved_answer ''alice'' plain_api =
     Inr (True, ''https://api.example.org/users/alice'')"
proof -
  have f: "py_format (url plain_api) ''alice'' = Inr ''https://api.example.org/users/alice''"
    by code_simp
  have g: "moved_answer ''https://api.example.org/users/alice'' =
             Inr \<lparr>status_code = 200, body_text = ''ok'',
                  response_url = ''https://api.example.org/v2/users/alice''\<rparr>"
    by (simp add: moved_answer_def)
  have s: "status_code \<lparr>status_code = 200, body_text = ''ok'',
                  response_url = ''https://api.example.org/v2/users/alice''\<rparr> = 200"
    by simp
  have n: "failure_indicators plain_api = []"
    by (simp add: plain_api_def)
  from unmarked_200_found_by_requests [where get = moved_answer, OF f g s n] f n
  show ?thesis by simp
qed

text \<open>
  C3 as stated fails twice. The address reported is the request URL, not the URL
  the response came from after redirects. And the rendered check of a site
  without markers, at status 200 on a domain that none of the platform branches
  names, ends in \<^verbatim>\<open>(False, "Not Found")\<close>.
\<close>

theorem unmarked_200_counterexample:
  "success_indicators plain_api = [] \<and> failure_indicators plain_api = [] \<and>
   check_with_requests moved_answer ''alice'' plain_api =
     Inr (True, ''https://api.example.org/users/alice'') \<and>
   map_sum id response_url (moved_answer ''https://api.example.org/users/alice'') =
     Inr ''https://api.example.org/v2/users/alice'' \<and>
   loads plain_page (Some 200) ''ok'' \<and>
   page_url plain_page = ''https://api.example.org/users/alice'' \<and>
   fst (check_with_playwright plain_page ''alice'' (plain_api\<lparr>fetch_method := ''playwright''\<rparr>)) =
     (False, ''Not Found'')"
  by code_simp

section \<open>No evidence\<close>

text \<open>
  C8, as the code has it. When the fetch raised nothing and no marker matched: the
  rendered check reports \<^verbatim>\<open>(False, "Not Found")\<close> whenever the navigation's status
  is not 200, also when the navigation returned no response at all; the lightweight
  check reports \<^verbatim>\<open>(False, "Not Found")\<close> for every status other than 200.
\<close>

theorem no_evidence_is_not_found:
  "(loads run response html \<and> py_format (url cfg) u = Inr t \<and>
      (\<forall>m\<in>set (failure_indicators cfg). \<not> py_in (lower m) (lower html)) \<and>
      (\<forall>m\<in>set (success_indicators cfg).
          \<exists>f. py_format m u = Inr f \<and> \<not> py_in (lower f) (lower html)) \<and>
      response \<noteq> Some 200
      \<longrightarrow> fst (check_with_playwright run u cfg) = (False, ''Not Found''))
   \<and> (py_format (url cfg) u = Inr t \<and> get t = Inr resp \<and> status_code resp \<noteq> 200
      \<longrightarrow> check_with_requests get u cfg = Inr (False, ''Not Found''))"
proof (intro conjI impI)
  assume a: "loads run response html \<and> py_format (url cfg) u = Inr t \<and>
      (\<forall>m\<in>set (failure_indicators cfg). \<not> py_in (lower m) (lower html)) \<and>
      (\<forall>m\<in>set (success_indicators cfg).
          \<exists>f. py_format m u = Inr f \<and> \<not> py_in (lower f) (lower html)) \<and>
      response \<noteq> Some 200"
  then have nf: "\<not> failure_found (failure_indicators cfg) (lower html)"
    by (simp add: failure_found_iff)
  from a have "success_found (success_indicators cfg) u (lower html) = Inr False"
    by (intro success_found_miss) simp
  with nf a have "decide_page u cfg t response (lower html) (page_url run) = Inr (False, ''Not Found'')"
    by (simp add: decide_page_def)
  with a show "fst (check_with_playwright run u cfg) = (False, ''Not Found'')"
    by (simp add: check_with_playwright_loads [of run response html cfg u t])
next
  assume "py_format (url cfg) u = Inr t \<and> get t = Inr resp \<and> status_code resp \<noteq> 200"
  then show "check_with_requests get u cfg = Inr (False, ''Not Found'')"
    by (simp add: check_with_requests_def)
qed

theorem no_evidence_is_not_found_witness:
  "loads server_error_page (Some 503) ''<html></html>'' \<and>
   fst (check_with_playwright server_error_page ''alice'' Instagram) = (False, ''Not Found'') \<and>
   loads no_response_page None ''<html></html>'' \<and>
   fst (check_with_playwright no_response_page ''alice'' Instagram) = (False, ''Not Found'') \<and>
   check_with_requests answer_404 ''alice'' Facebook = Inr (False, ''Not Found'')"
proof -
  have l1: "loads server_error_page (Some 503) ''<html></html>''"
    by (simp add: loads_def server_error_page_def loaded_page_def)
  have l2: "loads no_response_page None ''<html></html>''"
    by (simp add: loads_def no_response_page_def loaded_page_def)
  have f1: "py_format (url Instagram) ''alice'' = Inr ''https://www.instagram.com/alice/''"
    by code_simp
  have n1: "\<forall>m\<in>set (failure_indicators Instagram). \<not> py_in (lower m) (lower ''<html></html>'')"
    by code_simp
  have s1: "\<forall>m\<in>set (success_indicators Instagram).
              \<exists>f. py_format m ''alice'' = Inr f \<and> \<not> py_in (lower f) (lower ''<html></html>'')"
  proof -
    have "list_all (\<lambda>m. case py_format m ''alice'' of Inl e \<Rightarrow> False
                        | Inr f \<Rightarrow> \<not> py_in (lower f) (lower ''<html></html>''))
            (success_indicators Instagram)"
      by code_simp
    then have all: "\<forall>m\<in>set (success_indicators Instagram).
                 case py_format m ''alice'' of Inl e \<Rightarrow> False
                 | Inr f \<Rightarrow> \<not> py_in (lower f) (lower ''<html></html>'')"
      by (simp only: list_all_iff)
    show ?thesis
    proof (intro ballI)
      fix m
      assume "m \<in> set (success_indicators Instagram)"
      with all have "case py_format m ''alice'' of Inl e \<Rightarrow> False
              | Inr f \<Rightarrow> \<not> py_in (lower f) (lower ''<html></html>'')"
        by blast
      then show "\<exists>f. py_format m ''alice'' = Inr f \<and>
                    \<not> py_in (lower f) (lower ''<html></html>'')"
        by (cases "py_format m ''alice''") simp_all
    qed
  qed
  have c1: "fst (check_with_playwright server_error_page ''alice'' Instagram) = (False, ''Not Found'')"
    using no_evidence_is_not_found [where run = server_error_page and response = "Some 503"
        and html = "''<html></html>''" and cfg = Instagram and u = "''alice''"
        and t = "''https://www.instagram.com/alice/''"] l1 f1 n1 s1
    by simp
  have c2: "fst (check_with_playwright no_response_page ''alice'' Instagram) = (False, ''Not Found'')"
    using no_evidence_is_not_found [where run = no_response_page and response = None
        and html = "''<html></html>''" and cfg = Instagram and u = "''alice''"
        and t = "''https://www.instagram.com/alice/''"] l2 f1 n1 s1
    by simp
  have f3: "py_format (url Facebook) ''alice'' = Inr ''https://www.facebook.com/alice/''"
    by code_simp
  have g3: "answer_404 ''https://www.facebook.com/alice/'' =
              Inr \<lparr>status_code = 404, body_text = ''missing'',
                   response_url = ''https://www.facebook.com/alice/''\<rparr>"
    by (simp add: answer_404_def)
  have c3: "check_with_requests answer_404 ''alice'' Facebook = Inr (False, ''Not Found'')"
    using no_evidence_is_not_found [where cfg = Facebook and u = "''alice''"
        and t = "''https://www.facebook.com/alice/''" and get = answer_404
        and resp = "\<lparr>status_code = 404, body_text = ''missing'',
                   response_url = ''https://www.facebook.com/alice/''\<rparr>"] f3 g3
    by simp
  from l1 c1 l2 c2 c3 show ?thesis by blast
qed

text \<open>
  C8 as stated fails where no status is present: a navigation that returns no
  response, on a page without markers, is reported as not found and not as an error.
\<close>

theorem missing_status_counterexample:
  "loads no_response_page None ''<html></html>'' \<and>
   \<not> failure_found (failure_indicators Instagram) (lower ''<html></html>'') \<and>
   success_found (success_indicators Instagram) ''alice'' (lower ''<html></html>'') = Inr False \<and>
   fst (check_with_playwright no_response_page ''alice'' Instagram) = (False, ''Not Found'') \<and>
   fst (check_with_playwright no_response_page ''alice'' Instagram) \<noteq> (False, ''Error checking'')"
  by code_simp

section \<open>The browser session on the paths that raise\<close>


section \<open>The GitHub API path\<close>

text \<open>
  C10. Lightweight check of a site whose resolved URL contains \<^verbatim>\<open>api.github.com\<close>,
  when the request is answered: the result is found at the request URL if the
  status is 200 and \<^verbatim>\<open>(False, "Not Found")\<close> otherwise, and replacing the site's
  success and failure markers by any others does not change it.
\<close>

theorem github_api_status_decides:
  assumes "py_format (url cfg) u = Inr t" and "py_in ''api.github.com'' t" and "get t = Inr resp"
  shows "check_with_requests get u cfg =
           Inr (if status_code resp = 200 then (True, t) else (False, ''Not Found'')) \<and>
         check_with_requests get u (cfg\<lparr>success_indicators := ss, failure_indicators := fs\<rparr>) =
           check_with_requests get u cfg"
  using assms by (simp add: check_with_requests_def)

theorem github_api_status_decides_witness:
  "py_in ''api.github.com'' ''https://api.github.com/users/alice'' \<and>
   check_with_requests (answer_200 ''message: Not Found'') ''alice'' github_with_marker =
     Inr (True, ''https://api.github.com/users/alice'') \<and>
   check_with_requests answer_404 ''alice'' GitHub = Inr (False, ''Not Found'')"
proof -
  have f: "py_format (url GitHub) ''alice'' = Inr ''https://api.github.com/users/alice''"
    by code_simp
  have f': "py_format (url github_with_marker) ''alice'' = Inr ''https://api.github.com/users/alice''"
    by code_simp
  have i: "py_in ''api.github.com'' ''https://api.github.com/users/alice''"
    by code_simp
  have g1: "answer_200 ''message: Not Found'' ''https://api.github.com/users/alice'' =
              Inr \<lparr>status_code = 200, body_text = ''message: Not Found'',
                   response_url = ''https://api.github.com/users/alice''\<rparr>"
    by (simp add: answer_200_def)
  have g2: "answer_404 ''https://api.github.com/users/alice'' =
              Inr \<lparr>status_code = 404, body_text = ''missing'',
                   response_url = ''https://api.github.com/users/alice''\<rparr>"
    by (simp add: answer_404_def)
  have c1: "check_with_requests (answer_200 ''message: Not Found'') ''alice'' github_with_marker =
     Inr (True, ''https://api.github.com/users/alice'')"
    using github_api_status_decides [where get = "answer_200 ''message: Not Found''", OF f' i g1]
    by simp
  have c2: "check_with_requests answer_404 ''alice'' GitHub = Inr (False, ''Not Found'')"
    using github_api_status_decides [where get = answer_404, OF f i g2]
    by simp
  from i c1 c2 show ?thesis by blast
qed

section \<open>Transport and render errors stay inside the check\<close>



section \<open>One result per site\<close>

text \<open>
  C7. For a handle and a dictionary of sites (each name once) where nothing but a
  \<^verbatim>\<open>RequestException\<close> can leave a lightweight check, \<open>check_username\<close> returns,
  and its results are, site by site and in the order of the dictionary, the name of
  the site with the result of its check: no site is missing and no name occurs twice.
\<close>

theorem one_result_per_site:
  assumes "distinct (map fst sts)" and "\<forall>(n, c)\<in>set sts. checkable w u c"
  shows "\<exists>results. check_username w u sts = Inr results \<and>
           map fst results = map fst sts \<and> distinct (map fst results) \<and>
           map (\<lambda>(n, r). (n, Inr r)) results = map (\<lambda>(n, c). (n, check_site w u c)) sts"
proof -
  let ?rs = "map (\<lambda>(n, c). (n, projr (check_site w u c))) sts"
  have "check_username w u sts = Inr ?rs"
    using check_username_returns [OF assms(2) assms(1)] .
  moreover have names: "map fst ?rs = map fst sts" by (simp add: case_prod_unfold comp_def)
  moreover have "distinct (map fst ?rs)" using assms(1) by (simp only: names)
  moreover have "map (\<lambda>(n, r). (n, Inr r)) ?rs = map (\<lambda>(n, c). (n, check_site w u c)) sts"
  proof -
    have "\<And>n c. (n, c) \<in> set sts \<Longrightarrow> Inr (projr (check_site w u c)) = check_site w u c"
      using assms(2) check_site_returns by fastforce
    then show ?thesis by (auto simp: case_prod_unfold)
  qed
  ultimately show ?thesis by blast
qed

theorem one_result_per_site_witness:
  "distinct (map fst (sites_of CATEGORIES ''3'')) \<and>
   list_all (\<lambda>(n, c). checkable small_world ''alice'' c) (sites_of CATEGORIES ''3'') \<and>
   (\<exists>results. check_username small_world ''alice'' (sites_of CATEGORIES ''3'') = Inr results \<and>
      map fst results =
        [''Instagram'', ''Facebook'', ''Twitter'', ''Snapchat'', ''LinkedIn'', ''GitHub''] \<and>
      distinct (map fst results))"
proof -
  have d: "distinct (map fst (sites_of CATEGORIES ''3''))"
    by code_simp
  have l: "list_all (\<lambda>(n, c). checkable small_world ''alice'' c) (sites_of CATEGORIES ''3'')"
    by code_simp
  then have ok: "\<forall>(n, c)\<in>set (sites_of CATEGORIES ''3''). checkable small_world ''alice'' c"
    by (simp only: list_all_iff)
  have n: "map fst (sites_of CATEGORIES ''3'') =
        [''Instagram'', ''Facebook'', ''Twitter'', ''Snapchat'', ''LinkedIn'', ''GitHub'']"
    by code_simp
  from one_result_per_site [OF d ok] obtain results where
    "check_username small_world ''alice'' (sites_of CATEGORIES ''3'') = Inr results"
    "map fst results = map fst (sites_of CATEGORIES ''3'')" "distinct (map fst results)"
    by blast
  with d l n show ?thesis by simp
qed

section \<open>The score of a report\<close>



end
